theory Spec2Isabelle
  imports Main "HOL-Library.AList"
begin

section \<open>Python values and exceptions\<close>

text \<open>
  The values that travel through \<^verbatim>\<open>flask_cloudant/__init__.py\<close>. \<open>PList\<close> and
  \<open>PDict\<close> are a list or a \<^verbatim>\<open>dict\<close> written out as a literal: a value the caller passes in,
  or a JSON value as the store keeps it (a \<^verbatim>\<open>dict\<close> is an association list in insertion
  order). \<open>PRef\<close> is a reference to a list or dictionary object of the heap: the nested
  containers that a fetch builds are such objects, shared by every mapping that holds the
  reference. \<open>PType\<close> is a type object (the code passes the type \<^verbatim>\<open>dict\<close> as an exception
  argument).
\<close>

type_synonym addr = nat

datatype pyval =
    PNone
  | PBool bool
  | PInt int
  | PStr string
  | PList "pyval list"
  | PDict "(string \<times> pyval) list"
  | PType string
  | PRef addr

type_synonym fields = "(string \<times> pyval) list"

text \<open>
  Modelled from the spec: \<^verbatim>\<open>flask_cloudant/error.py\<close> (the class
  \<^verbatim>\<open>FlaskCloudantException\<close>) is not among the sources. The spec (sections 4.4 and 7)
  says that every domain error carries a status code and its context, so the exception is
  the status code given to the constructor together with the remaining positional
  arguments. The other constructors are the exceptions of Python, of \<^verbatim>\<open>requests\<close> and of
  the wrapped client library that the code catches or lets through.
\<close>

datatype exn =
    FlaskCloudantException int "pyval list"
  | AssertionError
  | AttributeError
  | KeyError pyval
  | TypeError
  | HTTPError int
  | MissingSchema
  | CloudantClientException int
  | CloudantDocumentException int
  | CloudantArgumentError

fun truthy :: "pyval \<Rightarrow> bool" where
  "truthy PNone = False"
| "truthy (PBool b) = b"
| "truthy (PInt n) = (n \<noteq> 0)"
| "truthy (PStr s) = (s \<noteq> [])"
| "truthy (PList xs) = (xs \<noteq> [])"
| "truthy (PDict kvs) = (kvs \<noteq> [])"
| "truthy (PType t) = True"
| "truthy (PRef a) = True"

definition py :: "string option \<Rightarrow> pyval" where
  "py x = (case x of None \<Rightarrow> PNone | Some s \<Rightarrow> PStr s)"

section \<open>The world: client objects, remote store, local objects\<close>

text \<open>
  \<open>client\<close> is an object built by \<^verbatim>\<open>cloudant.CouchDB(user, pwd, url=url)\<close>;
  \<open>connected\<close> says whether it holds an open session (Connected) or none (Disconnected).
\<close>

record client =
  user :: "string option"
  auth_token :: "string option"
  url :: "string option"
  connected :: bool

text \<open>
  What the client library and the transport answer when a client opens its session: the
  session is granted, the server refuses with an HTTP status, the library rejects the
  settings with one of its own codes, or the URL is not one \<^verbatim>\<open>requests\<close> can use.
\<close>

datatype login = Granted | Refused int | Invalid int | Malformed

text \<open>
  The objects of the heap: a \<^verbatim>\<open>Document\<close> of the library (a \<^verbatim>\<open>dict\<close> subclass, mutated in
  place), a plain \<^verbatim>\<open>dict\<close>, a list.
\<close>

datatype obj = ODoc fields | ODict fields | OList "pyval list"

text \<open>
  The state every operation runs in.
  \<^item> \<open>clients\<close> are the client objects created so far and \<open>CLIENT\<close> is the class attribute
    \<^verbatim>\<open>FlaskCloudant.CLIENT\<close>: one slot for the whole program, holding a reference to one
    of them; \<open>next_client\<close> is where the next client object goes.
  \<^item> \<open>connects\<close> and \<open>disconnects\<close> count the calls of \<^verbatim>\<open>CLIENT.connect()\<close> and
    \<^verbatim>\<open>CLIENT.disconnect()\<close>.
  \<^item> \<open>transport\<close>, \<open>databases\<close>, \<open>serial\<close>, \<open>new_id\<close> and \<open>new_rev\<close> are the remote
    server: which settings open a session, the stored documents of each database (each a
    JSON object holding its \<^verbatim>\<open>_id\<close> and \<^verbatim>\<open>_rev\<close>), and the identifiers and revision
    tokens it hands out.
  \<^item> \<open>heap\<close> holds the local dictionary and list objects; \<open>next_addr\<close> is the next free
    address.
\<close>

record world =
  clients :: "addr \<rightharpoonup> client"
  CLIENT :: "addr option"
  next_client :: addr
  connects :: nat
  disconnects :: nat
  transport :: "string option \<Rightarrow> string option \<Rightarrow> string option \<Rightarrow> login"
  databases :: "string \<rightharpoonup> (string \<rightharpoonup> fields)"
  serial :: nat
  new_id :: "nat \<Rightarrow> string"
  new_rev :: "nat \<Rightarrow> string"
  heap :: "addr \<rightharpoonup> obj"
  next_addr :: addr

text \<open>A statement either returns a value or raises; both leave a world behind.\<close>

type_synonym 'a prog = "world \<Rightarrow> (exn + 'a) \<times> world"

definition return :: "'a \<Rightarrow> 'a prog" where
  "return x w = (Inr x, w)"

definition raise :: "exn \<Rightarrow> 'a prog" where
  "raise e w = (Inl e, w)"

definition andthen :: "'a prog \<Rightarrow> ('a \<Rightarrow> 'b prog) \<Rightarrow> 'b prog" where
  "andthen m f w = (case m w of (Inl e, w') \<Rightarrow> (Inl e, w') | (Inr x, w') \<Rightarrow> f x w')"

definition catch :: "'a prog \<Rightarrow> (exn \<Rightarrow> 'a prog) \<Rightarrow> 'a prog" where
  "catch m h w = (case m w of (Inl e, w') \<Rightarrow> h e w' | (Inr x, w') \<Rightarrow> (Inr x, w'))"

definition try_finally :: "'a prog \<Rightarrow> unit prog \<Rightarrow> 'a prog" where
  "try_finally m c w =
     (case m w of
        (Inl e, w') \<Rightarrow> (case c w' of (Inl e', w'') \<Rightarrow> (Inl e', w'') | (Inr _, w'') \<Rightarrow> (Inl e, w''))
      | (Inr x, w') \<Rightarrow> (case c w' of (Inl e', w'') \<Rightarrow> (Inl e', w'') | (Inr _, w'') \<Rightarrow> (Inr x, w'')))"

section \<open>The wrapped client library\<close>

text \<open>
  The packages \<^verbatim>\<open>cloudant\<close> and \<^verbatim>\<open>requests\<close> are external dependencies; what follows
  models the operations the code calls, as the library behaves:
  \<^item> a client opens a session with \<^verbatim>\<open>connect\<close> and drops it with \<^verbatim>\<open>disconnect\<close>; a
    client without URL, or with one that \<^verbatim>\<open>requests\<close> cannot use, raises
    \<^verbatim>\<open>MissingSchema\<close> in \<^verbatim>\<open>connect\<close>;
  \<^item> \<^verbatim>\<open>client[name]\<close> gives a database object bound to that client; it raises
    \<^verbatim>\<open>KeyError\<close> for a database the server does not have and \<^verbatim>\<open>TypeError\<close> for the name
    \<^verbatim>\<open>None\<close>;
  \<^item> a \<^verbatim>\<open>Document\<close> is a local dictionary bound to a database object; every request it
    makes goes through the session of the client its database is bound to, and raises
    \<^verbatim>\<open>AttributeError\<close> when that client has no session;
  \<^item> a document id that starts with an underscore, other than a design or local
    document, is rejected with \<^verbatim>\<open>CloudantArgumentError\<close>;
  \<^item> the server answers a request for a document with status 200 or 404, a stale
    revision or an id already taken with 409, an id it does not accept with 400.
\<close>

definition CouchDB :: "string option \<Rightarrow> string option \<Rightarrow> string option \<Rightarrow> client" where
  "CouchDB u p l = \<lparr>user = u, auth_token = p, url = l, connected = False\<rparr>"

definition client_connect :: "addr \<Rightarrow> client \<Rightarrow> unit prog" where
  "client_connect a c w =
     (case url c of
        None \<Rightarrow> (Inl MissingSchema, w\<lparr>connects := connects w + 1\<rparr>)
      | Some _ \<Rightarrow>
          (case transport w (user c) (auth_token c) (url c) of
             Granted \<Rightarrow>
               (Inr (), w\<lparr>clients := (clients w)(a \<mapsto> c\<lparr>connected := True\<rparr>),
                          connects := connects w + 1\<rparr>)
           | Refused s \<Rightarrow> (Inl (HTTPError s), w\<lparr>connects := connects w + 1\<rparr>)
           | Invalid s \<Rightarrow> (Inl (CloudantClientException s), w\<lparr>connects := connects w + 1\<rparr>)
           | Malformed \<Rightarrow> (Inl MissingSchema, w\<lparr>connects := connects w + 1\<rparr>)))"

definition client_disconnect :: "addr \<Rightarrow> client \<Rightarrow> unit prog" where
  "client_disconnect a c w =
     (Inr (), w\<lparr>clients := (clients w)(a \<mapsto> c\<lparr>connected := False\<rparr>),
                disconnects := disconnects w + 1\<rparr>)"

text \<open>The client at address \<open>a\<close> holds an open session.\<close>

definition session :: "world \<Rightarrow> addr \<Rightarrow> bool" where
  "session w a = (case clients w a of None \<Rightarrow> False | Some c \<Rightarrow> connected c)"

text \<open>A database object: the client object it is bound to and the name of the database.\<close>

record database =
  db_client :: addr
  db_name :: string

definition client_getitem :: "addr \<Rightarrow> string option \<Rightarrow> database prog" where
  "client_getitem a key w =
     (if \<not> session w a then (Inl AttributeError, w)
      else
        (case key of
           None \<Rightarrow> (Inl TypeError, w)
         | Some name \<Rightarrow>
             (case databases w name of
                None \<Rightarrow> (Inl (KeyError (PStr name)), w)
              | Some _ \<Rightarrow> (Inr \<lparr>db_client = a, db_name = name\<rparr>, w))))"

text \<open>A reference to a \<^verbatim>\<open>Document\<close> object: its database object and where its items live.\<close>

record cloudant_doc =
  doc_database :: database
  doc_addr :: addr

definition items_of :: "world \<Rightarrow> addr \<Rightarrow> fields" where
  "items_of w a =
     (case heap w a of
        Some (ODoc fs) \<Rightarrow> fs
      | Some (ODict fs) \<Rightarrow> fs
      | _ \<Rightarrow> [])"

text \<open>
  The id a document is addressed by: its \<^verbatim>\<open>_id\<close> item. (An \<^verbatim>\<open>_id\<close> that is not a string
  can only come from \<^verbatim>\<open>content\<close>; it is treated as no id.)
\<close>

definition doc_id :: "fields \<Rightarrow> string option" where
  "doc_id fs = (case map_of fs ''_id'' of Some (PStr i) \<Rightarrow> Some i | _ \<Rightarrow> None)"

definition reserved :: "string \<Rightarrow> bool" where
  "reserved i =
     (case i of
        [] \<Rightarrow> False
      | c # _ \<Rightarrow> c = CHR ''_'' \<and> take 8 i \<noteq> ''_design/'' \<and> take 7 i \<noteq> ''_local/'')"

definition stored :: "world \<Rightarrow> database \<Rightarrow> string \<Rightarrow> fields option" where
  "stored w d i = (case databases w (db_name d) of None \<Rightarrow> None | Some docs \<Rightarrow> docs i)"

text \<open>
  What a JSON value of a response becomes on the Python side: every list and every
  dictionary inside it is a new object of the heap, built from the inside out.
\<close>

type_synonym objects = "(addr \<rightharpoonup> obj) \<times> addr"

fun load :: "pyval \<Rightarrow> objects \<Rightarrow> pyval \<times> objects"
  and load_list :: "pyval list \<Rightarrow> objects \<Rightarrow> pyval list \<times> objects"
  and load_items :: "fields \<Rightarrow> objects \<Rightarrow> fields \<times> objects" where
  "load (PList xs) s =
     (case load_list xs s of (ys, (h, n)) \<Rightarrow> (PRef n, (h(n \<mapsto> OList ys), Suc n)))"
| "load (PDict kvs) s =
     (case load_items kvs s of (kvs', (h, n)) \<Rightarrow> (PRef n, (h(n \<mapsto> ODict kvs'), Suc n)))"
| "load PNone s = (PNone, s)"
| "load (PBool b) s = (PBool b, s)"
| "load (PInt i) s = (PInt i, s)"
| "load (PStr x) s = (PStr x, s)"
| "load (PType t) s = (PType t, s)"
| "load (PRef a) s = (PRef a, s)"
| "load_list [] s = ([], s)"
| "load_list (x # xs) s =
     (case load x s of (y, s1) \<Rightarrow> (case load_list xs s1 of (ys, s2) \<Rightarrow> (y # ys, s2)))"
| "load_items [] s = ([], s)"
| "load_items (kv # kvs) s =
     (case load (snd kv) s of (y, s1) \<Rightarrow>
        (case load_items kvs s1 of (kvs', s2) \<Rightarrow> ((fst kv, y) # kvs', s2)))"

text \<open>
  \<^verbatim>\<open>json.dumps\<close>: the JSON value of a Python value, with every reference replaced by the
  contents of the object it points to. The first argument bounds the number of references
  followed on one path (a longer path than there are objects goes in a circle); a type
  object, a dangling or a circular reference has no JSON value.
\<close>

fun dump :: "nat \<Rightarrow> (addr \<rightharpoonup> obj) \<Rightarrow> pyval \<Rightarrow> pyval option"
  and dump_list :: "nat \<Rightarrow> (addr \<rightharpoonup> obj) \<Rightarrow> pyval list \<Rightarrow> pyval list option"
  and dump_items :: "nat \<Rightarrow> (addr \<rightharpoonup> obj) \<Rightarrow> fields \<Rightarrow> fields option" where
  "dump n h PNone = Some PNone"
| "dump n h (PBool b) = Some (PBool b)"
| "dump n h (PInt i) = Some (PInt i)"
| "dump n h (PStr x) = Some (PStr x)"
| "dump n h (PType t) = None"
| "dump n h (PList xs) = map_option PList (dump_list n h xs)"
| "dump n h (PDict kvs) = map_option PDict (dump_items n h kvs)"
| "dump 0 h (PRef a) = None"
| "dump (Suc n) h (PRef a) =
     (case h a of
        None \<Rightarrow> None
      | Some (OList xs) \<Rightarrow> map_option PList (dump_list n h xs)
      | Some (ODict kvs) \<Rightarrow> map_option PDict (dump_items n h kvs)
      | Some (ODoc kvs) \<Rightarrow> map_option PDict (dump_items n h kvs))"
| "dump_list n h [] = Some []"
| "dump_list n h (x # xs) =
     (case dump n h x of
        None \<Rightarrow> None
      | Some y \<Rightarrow> (case dump_list n h xs of None \<Rightarrow> None | Some ys \<Rightarrow> Some (y # ys)))"
| "dump_items n h [] = Some []"
| "dump_items n h (kv # kvs) =
     (case dump n h (snd kv) of
        None \<Rightarrow> None
      | Some y \<Rightarrow>
          (case dump_items n h kvs of None \<Rightarrow> None | Some kvs' \<Rightarrow> Some ((fst kv, y) # kvs')))"

definition alloc :: "obj \<Rightarrow> addr prog" where
  "alloc x w = (Inr (next_addr w), w\<lparr>heap := (heap w)(next_addr w \<mapsto> x), next_addr := next_addr w + 1\<rparr>)"

text \<open>\<^verbatim>\<open>Document(database, document_id)\<close> sets \<^verbatim>\<open>_id\<close> only for an id that is truthy.\<close>

definition Document :: "database \<Rightarrow> string option \<Rightarrow> cloudant_doc prog" where
  "Document d document_id =
     andthen
       (alloc (ODoc (case document_id of
                       None \<Rightarrow> []
                     | Some i \<Rightarrow> if i = [] then [] else [(''_id'', PStr i)])))
       (\<lambda>a. return \<lparr>doc_database = d, doc_addr = a\<rparr>)"

definition getitem :: "cloudant_doc \<Rightarrow> string \<Rightarrow> pyval prog" where
  "getitem doc k w =
     (case map_of (items_of w (doc_addr doc)) k of
        None \<Rightarrow> (Inl (KeyError (PStr k)), w)
      | Some v \<Rightarrow> (Inr v, w))"

definition lib_exists :: "cloudant_doc \<Rightarrow> bool prog" where
  "lib_exists doc w =
     (case doc_id (items_of w (doc_addr doc)) of
        None \<Rightarrow> (Inr False, w)
      | Some i \<Rightarrow>
          if reserved i then (Inl CloudantArgumentError, w)
          else if \<not> session w (db_client (doc_database doc)) then (Inl AttributeError, w)
          else (Inr (stored w (doc_database doc) i \<noteq> None), w))"

definition lib_fetch :: "cloudant_doc \<Rightarrow> unit prog" where
  "lib_fetch doc w =
     (case doc_id (items_of w (doc_addr doc)) of
        None \<Rightarrow> (Inl (CloudantDocumentException 101), w)
      | Some i \<Rightarrow>
          if reserved i then (Inl CloudantArgumentError, w)
          else if \<not> session w (db_client (doc_database doc)) then (Inl AttributeError, w)
          else
            (case stored w (doc_database doc) i of
               None \<Rightarrow> (Inl (HTTPError 404), w)
             | Some fs \<Rightarrow>
                 (case load_items fs (heap w, next_addr w) of
                    (fs', (h, n)) \<Rightarrow>
                      (Inr (), w\<lparr>heap := h(doc_addr doc \<mapsto> ODoc fs'), next_addr := n\<rparr>))))"

definition lib_delete :: "cloudant_doc \<Rightarrow> unit prog" where
  "lib_delete doc w =
     (let fs = items_of w (doc_addr doc) in
      case map_of fs ''_rev'' of
        None \<Rightarrow> (Inl (CloudantDocumentException 103), w)
      | Some r \<Rightarrow>
          if \<not> truthy r then (Inl (CloudantDocumentException 103), w)
          else
            (case doc_id fs of
               None \<Rightarrow>
                 if \<not> session w (db_client (doc_database doc)) then (Inl AttributeError, w)
                 else (Inl MissingSchema, w)
             | Some i \<Rightarrow>
                 if reserved i then (Inl CloudantArgumentError, w)
                 else if \<not> session w (db_client (doc_database doc)) then (Inl AttributeError, w)
                 else
                   (case databases w (db_name (doc_database doc)) of
                      None \<Rightarrow> (Inl (HTTPError 404), w)
                    | Some docs \<Rightarrow>
                        (case docs i of
                           None \<Rightarrow> (Inl (HTTPError 404), w)
                         | Some sfs \<Rightarrow>
                             if map_of sfs ''_rev'' \<noteq> Some r then (Inl (HTTPError 409), w)
                             else
                               (Inr (),
                                w\<lparr>databases :=
                                    (databases w)(db_name (doc_database doc) \<mapsto> docs(i := None)),
                                  heap := (heap w)(doc_addr doc \<mapsto> ODoc [(''_id'', PStr i)])\<rparr>)))))"

text \<open>
  \<^verbatim>\<open>create()\<close> posts the JSON value of the document. The server takes the id from
  \<^verbatim>\<open>_id\<close>, or hands one out, and answers with the id and a new revision, which the
  library writes into the local document.
\<close>

definition lib_create :: "cloudant_doc \<Rightarrow> unit prog" where
  "lib_create doc w =
     (let fs = items_of w (doc_addr doc) in
      if \<not> session w (db_client (doc_database doc)) then (Inl AttributeError, w)
      else
        (case dump_items (next_addr w) (heap w) fs of
           None \<Rightarrow> (Inl TypeError, w)
         | Some js \<Rightarrow>
             (case databases w (db_name (doc_database doc)) of
                None \<Rightarrow> (Inl (HTTPError 404), w)
              | Some docs \<Rightarrow>
                  (case (case map_of js ''_id'' of
                           None \<Rightarrow> Some (new_id w (serial w))
                         | Some (PStr j) \<Rightarrow> if j = [] \<or> reserved j then None else Some j
                         | Some _ \<Rightarrow> None) of
                     None \<Rightarrow> (Inl (HTTPError 400), w)
                   | Some i \<Rightarrow>
                       (case docs i of
                          Some _ \<Rightarrow> (Inl (HTTPError 409), w)
                        | None \<Rightarrow>
                            (Inr (),
                             w\<lparr>databases :=
                                 (databases w)(db_name (doc_database doc) \<mapsto> docs(i \<mapsto>
                                    AList.update ''_rev'' (PStr (new_rev w (serial w)))
                                      (AList.update ''_id'' (PStr i) js))),
                               serial := serial w + 1,
                               heap := (heap w)(doc_addr doc \<mapsto> ODoc
                                    (AList.update ''_rev'' (PStr (new_rev w (serial w)))
                                      (AList.update ''_id'' (PStr i) fs)))\<rparr>))))))"

text \<open>\<^verbatim>\<open>field_set\<close> removes the field when the value is \<^verbatim>\<open>None\<close>.\<close>

definition field_set :: "cloudant_doc \<Rightarrow> string \<Rightarrow> pyval \<Rightarrow> unit prog" where
  "field_set doc field val w =
     (let fs = items_of w (doc_addr doc) in
      if val = PNone then
        (case map_of fs field of
           None \<Rightarrow> (Inl (KeyError (PStr field)), w)
         | Some _ \<Rightarrow> (Inr (), w\<lparr>heap := (heap w)(doc_addr doc \<mapsto> ODoc (AList.delete field fs))\<rparr>))
      else (Inr (), w\<lparr>heap := (heap w)(doc_addr doc \<mapsto> ODoc (AList.update field val fs))\<rparr>))"

text \<open>
  \<^verbatim>\<open>dict(d)\<close>: a new dictionary object with the items of \<open>d\<close>. The copy is shallow: an item
  that is a reference is the same reference in the copy.
\<close>

definition dict_copy :: "cloudant_doc \<Rightarrow> addr prog" where
  "dict_copy doc w = alloc (ODict (items_of w (doc_addr doc))) w"

section \<open>FlaskCloudant and FlaskCloudantDocument\<close>

type_synonym config = "string \<rightharpoonup> string"

text \<open>
  An instance of \<^verbatim>\<open>FlaskCloudant\<close>: its attribute \<^verbatim>\<open>_db\<close>, unset before \<^verbatim>\<open>init_app\<close>,
  afterwards the database object that \<^verbatim>\<open>init_app\<close> got from the client of that moment.
\<close>

record flask_cloudant =
  db :: "database option"

record flask_cloudant_document =
  document :: cloudant_doc

definition connect :: "unit prog" where
  "connect w =
     (case CLIENT w of
        None \<Rightarrow> (Inl AttributeError, w)
      | Some a \<Rightarrow>
          (case clients w a of
             None \<Rightarrow> (Inl AttributeError, w)
           | Some c \<Rightarrow> client_connect a c w))"

definition disconnect :: "unit prog" where
  "disconnect w =
     (case CLIENT w of
        None \<Rightarrow> (Inl AttributeError, w)
      | Some a \<Rightarrow>
          (case clients w a of
             None \<Rightarrow> (Inl AttributeError, w)
           | Some c \<Rightarrow> client_disconnect a c w))"

text \<open>\<^verbatim>\<open>FlaskCloudant.CLIENT = c\<close> for a newly built client object \<open>c\<close>.\<close>

definition set_CLIENT :: "client \<Rightarrow> unit prog" where
  "set_CLIENT c w =
     (Inr (), w\<lparr>clients := (clients w)(next_client w \<mapsto> c),
                CLIENT := Some (next_client w),
                next_client := next_client w + 1\<rparr>)"

text \<open>\<^verbatim>\<open>FlaskCloudant.CLIENT[key]\<close>.\<close>

definition CLIENT_getitem :: "string option \<Rightarrow> database prog" where
  "CLIENT_getitem key w =
     (case CLIENT w of
        None \<Rightarrow> (Inl TypeError, w)
      | Some a \<Rightarrow> client_getitem a key w)"

definition attr_db :: "flask_cloudant \<Rightarrow> database prog" where
  "attr_db self = (case db self of None \<Rightarrow> raise AttributeError | Some d \<Rightarrow> return d)"

definition init_app :: "flask_cloudant \<Rightarrow> config \<Rightarrow> flask_cloudant prog" where
  "init_app self config =
     (let couch_user = config ''COUCH_USER'';
          couch_pwd = config ''COUCH_PWD'';
          couch_db = config ''COUCH_DB'';
          couch_url = config ''COUCH_URL''
      in catch
           (andthen (set_CLIENT (CouchDB couch_user couch_pwd couch_url)) (\<lambda>_.
            andthen connect (\<lambda>_.
            andthen (CLIENT_getitem couch_db) (\<lambda>d.
            andthen disconnect (\<lambda>_.
            return (self\<lparr>db := Some d\<rparr>))))))
           (\<lambda>ex. case ex of
              CloudantClientException status_code \<Rightarrow> raise (FlaskCloudantException status_code [])
            | HTTPError status_code \<Rightarrow> raise (FlaskCloudantException status_code [py couch_user])
            | KeyError _ \<Rightarrow> raise (FlaskCloudantException 400 [py couch_db])
            | _ \<Rightarrow> raise ex))"

definition FlaskCloudant :: "config option \<Rightarrow> flask_cloudant prog" where
  "FlaskCloudant app =
     (case app of
        None \<Rightarrow> return \<lparr>db = None\<rparr>
      | Some config \<Rightarrow> init_app \<lparr>db = None\<rparr> config)"

definition FlaskCloudantDocument :: "cloudant_doc \<Rightarrow> bool \<Rightarrow> flask_cloudant_document prog" where
  "FlaskCloudantDocument cdoc exists =
     (if exists then
        andthen (lib_exists cdoc) (\<lambda>e.
          if e then andthen (lib_fetch cdoc) (\<lambda>_. return \<lparr>document = cdoc\<rparr>)
          else andthen (getitem cdoc ''_id'') (\<lambda>i. raise (FlaskCloudantException 404 [i])))
      else return \<lparr>document = cdoc\<rparr>)"

definition refresh :: "flask_cloudant_document \<Rightarrow> unit prog" where
  "refresh self =
     andthen connect (\<lambda>_.
     andthen (lib_fetch (document self)) (\<lambda>_.
     disconnect))"

fun set_fields :: "cloudant_doc \<Rightarrow> fields \<Rightarrow> unit prog" where
  "set_fields doc [] = return ()"
| "set_fields doc ((key, val) # rest) =
     andthen (field_set doc key val) (\<lambda>_. set_fields doc rest)"

text \<open>
  \<^verbatim>\<open>assert type(content) is dict\<close>, giving the items to iterate over: those of a literal
  \<^verbatim>\<open>dict\<close>, or of a plain dictionary object. A \<^verbatim>\<open>Document\<close> is not of type \<^verbatim>\<open>dict\<close>.
\<close>

definition assert_dict :: "pyval \<Rightarrow> fields prog" where
  "assert_dict c w =
     (case c of
        PDict kvs \<Rightarrow> (Inr kvs, w)
      | PRef a \<Rightarrow> (case heap w a of Some (ODict kvs) \<Rightarrow> (Inr kvs, w) | _ \<Rightarrow> (Inl AssertionError, w))
      | _ \<Rightarrow> (Inl AssertionError, w))"

definition content :: "flask_cloudant_document \<Rightarrow> pyval \<Rightarrow> addr option prog" where
  "content self c =
     (if c = PNone then
        andthen (refresh self) (\<lambda>_.
        andthen (dict_copy (document self)) (\<lambda>r.
        return (Some r)))
      else
        andthen (assert_dict c) (\<lambda>kvs.
        andthen (set_fields (document self) kvs) (\<lambda>_.
        return None)))"

definition exists :: "flask_cloudant_document \<Rightarrow> bool prog" where
  "exists self =
     andthen connect (\<lambda>_.
     andthen (lib_exists (document self)) (\<lambda>e.
     andthen disconnect (\<lambda>_.
     return e)))"

definition save :: "flask_cloudant_document \<Rightarrow> unit prog" where
  "save self = lib_create (document self)"

definition document_delete :: "flask_cloudant_document \<Rightarrow> unit prog" where
  "document_delete self = lib_delete (document self)"

definition get :: "flask_cloudant \<Rightarrow> string option \<Rightarrow> flask_cloudant_document prog" where
  "get self document_id =
     andthen connect (\<lambda>_.
     andthen (attr_db self) (\<lambda>d.
     andthen (Document d document_id) (\<lambda>cdoc.
     andthen (FlaskCloudantDocument cdoc True) (\<lambda>doc.
     andthen disconnect (\<lambda>_.
     return doc)))))"

definition put :: "flask_cloudant \<Rightarrow> pyval \<Rightarrow> string option \<Rightarrow> bool \<Rightarrow> flask_cloudant_document prog" where
  "put self cont document_id override =
     andthen connect (\<lambda>_.
     andthen (attr_db self) (\<lambda>d.
     andthen (Document d document_id) (\<lambda>cdoc.
     andthen (lib_exists cdoc) (\<lambda>e1.
     andthen
       (if e1 \<and> \<not> override then
          andthen (getitem cdoc ''_id'') (\<lambda>i. raise (FlaskCloudantException 405 [i]))
        else
          andthen (lib_exists cdoc) (\<lambda>e2.
            if e2 \<and> override then andthen (lib_fetch cdoc) (\<lambda>_. lib_delete cdoc)
            else return ())) (\<lambda>_.
     andthen (FlaskCloudantDocument cdoc False) (\<lambda>doc.
     andthen
       (catch (content doc cont)
          (\<lambda>ex. case ex of
             AssertionError \<Rightarrow> raise (FlaskCloudantException 700 [PStr ''Content'', PType ''dict''])
           | _ \<Rightarrow> raise ex)) (\<lambda>_.
     andthen (save doc) (\<lambda>_.
     andthen disconnect (\<lambda>_.
     return doc)))))))))"

definition delete :: "flask_cloudant \<Rightarrow> string option \<Rightarrow> unit prog" where
  "delete self document_id =
     andthen (get self document_id) (\<lambda>doc.
     andthen connect (\<lambda>_.
     andthen (document_delete doc) (\<lambda>_.
     disconnect)))"

section \<open>Notions used in the statements\<close>

text \<open>
  \<open>accepted\<close>: the slot \<open>CLIENT\<close> holds a client object that has a URL and whose settings
  the transport grants, so \<^verbatim>\<open>__connect__\<close> succeeds. \<open>serves w d\<close>: moreover the database
  object \<open>d\<close> is bound to that very client object (\<open>d\<close> was obtained by the \<^verbatim>\<open>init_app\<close>
  that installed it). \<open>disconnected\<close>: the shared client is in state Disconnected.
  \<open>calls_balanced w w'\<close>: between \<open>w\<close> and \<open>w'\<close> there were as many calls of
  \<^verbatim>\<open>disconnect\<close> as of \<^verbatim>\<open>connect\<close>.
\<close>

definition accepted :: "world \<Rightarrow> bool" where
  "accepted w =
     (case CLIENT w of
        None \<Rightarrow> False
      | Some a \<Rightarrow>
          (case clients w a of
             None \<Rightarrow> False
           | Some c \<Rightarrow> url c \<noteq> None \<and> transport w (user c) (auth_token c) (url c) = Granted))"

definition serves :: "world \<Rightarrow> database \<Rightarrow> bool" where
  "serves w d = (accepted w \<and> CLIENT w = Some (db_client d))"

definition disconnected :: "world \<Rightarrow> bool" where
  "disconnected w = (case CLIENT w of None \<Rightarrow> False | Some a \<Rightarrow> \<not> session w a)"

definition calls_balanced :: "world \<Rightarrow> world \<Rightarrow> bool" where
  "calls_balanced w w' = (connects w' + disconnects w = connects w + disconnects w')"

text \<open>
  The public operations that open a connection, each with its arguments; \<open>run\<close> executes
  one and forgets the value it returns.
\<close>

datatype operation =
    Get flask_cloudant "string option"
  | Put flask_cloudant pyval "string option" bool
  | Delete flask_cloudant "string option"
  | Exists flask_cloudant_document
  | Refresh flask_cloudant_document

definition forget :: "'a prog \<Rightarrow> unit prog" where
  "forget m = andthen m (\<lambda>_. return ())"

fun run :: "operation \<Rightarrow> unit prog" where
  "run (Get self i) = forget (get self i)"
| "run (Put self c i ov) = forget (put self c i ov)"
| "run (Delete self i) = delete self i"
| "run (Exists doc) = forget (exists doc)"
| "run (Refresh doc) = refresh doc"

text \<open>
  Bookkeeping for the proofs: the world after a successful \<^verbatim>\<open>connect\<close> or
  \<^verbatim>\<open>disconnect\<close>, the part of the world that concerns the connection, statements that
  leave it alone, the surplus of \<^verbatim>\<open>connect\<close> calls between two worlds, and statements
  whose surplus is \<open>s\<close> when they return and at least \<open>f\<close> when they raise.
\<close>

definition switch :: "bool \<Rightarrow> world \<Rightarrow> addr \<rightharpoonup> client" where
  "switch b w = (\<lambda>a. if CLIENT w = Some a then map_option (\<lambda>c. c\<lparr>connected := b\<rparr>) (clients w a)
                     else clients w a)"

definition opened :: "world \<Rightarrow> world" where
  "opened w = w\<lparr>clients := switch True w, connects := connects w + 1\<rparr>"

definition closed :: "world \<Rightarrow> world" where
  "closed w = w\<lparr>clients := switch False w, disconnects := disconnects w + 1\<rparr>"

definition conn ::
  "world \<Rightarrow> (addr \<rightharpoonup> client) \<times> addr option \<times> nat \<times> nat \<times> (string option \<Rightarrow> string option \<Rightarrow> string option \<Rightarrow> login)" where
  "conn w = (clients w, CLIENT w, connects w, disconnects w, transport w)"

definition keeps_conn :: "'a prog \<Rightarrow> bool" where
  "keeps_conn m = (\<forall>w. conn (snd (m w)) = conn w)"

definition drift :: "world \<Rightarrow> world \<Rightarrow> int" where
  "drift w w' = (int (connects w') - int (connects w)) - (int (disconnects w') - int (disconnects w))"

definition behaves :: "'a prog \<Rightarrow> int \<Rightarrow> int \<Rightarrow> bool" where
  "behaves m s f =
     (\<forall>w. accepted w \<longrightarrow>
        accepted (snd (m w)) \<and>
        (case fst (m w) of Inr _ \<Rightarrow> drift w (snd (m w)) = s | Inl _ \<Rightarrow> f \<le> drift w (snd (m w))))"

definition ends_closed :: "'a prog \<Rightarrow> bool" where
  "ends_closed m = (\<forall>w. accepted w \<longrightarrow> (case fst (m w) of Inr _ \<Rightarrow> disconnected (snd (m w)) | Inl _ \<Rightarrow> True))"

text \<open>
  \<open>fresh_doc\<close> is the world after \<^verbatim>\<open>Document(db, document_id)\<close> has been constructed.
  \<open>well_formed_at w d i\<close>: if database \<open>d\<close> stores a document under \<open>i\<close>, then that
  document names \<open>i\<close> in its \<^verbatim>\<open>_id\<close> and carries a non-empty revision token, as every
  document written by the server does.
\<close>

definition fresh_doc :: "string option \<Rightarrow> world \<Rightarrow> world" where
  "fresh_doc i w =
     w\<lparr>heap := (heap w)(next_addr w \<mapsto>
                  ODoc (case i of None \<Rightarrow> [] | Some j \<Rightarrow> if j = [] then [] else [(''_id'', PStr j)])),
       next_addr := next_addr w + 1\<rparr>"

definition well_formed_at :: "world \<Rightarrow> database \<Rightarrow> string \<Rightarrow> bool" where
  "well_formed_at w d i =
     (case stored w d i of
        None \<Rightarrow> True
      | Some fs \<Rightarrow>
          doc_id fs = Some i \<and>
          (case map_of fs ''_rev'' of Some (PStr r) \<Rightarrow> r \<noteq> [] | _ \<Rightarrow> False))"


text \<open>
  The specification's wording of \<^verbatim>\<open>delete(id)\<close>: \<^verbatim>\<open>get(id)\<close> followed by a scoped
  delete of the returned handle, where a scoped connection is connect, operate,
  disconnect with the release guaranteed whatever the outcome.
\<close>

definition scoped :: "'a prog \<Rightarrow> 'a prog" where
  "scoped m = andthen connect (\<lambda>_. try_finally m disconnect)"

definition delete_spec :: "flask_cloudant \<Rightarrow> string option \<Rightarrow> unit prog" where
  "delete_spec self document_id =
     andthen (get self document_id) (\<lambda>doc. scoped (document_delete doc))"

text \<open>
  JSON values written out: no reference into the heap and no type object anywhere inside.
\<close>

fun literal :: "pyval \<Rightarrow> bool" where
  "literal (PList xs) = list_all literal xs"
| "literal (PDict kvs) = list_all (\<lambda>kv. literal (snd kv)) kvs"
| "literal (PType t) = False"
| "literal (PRef a) = False"
| "literal v = True"

text \<open>
  The JSON value of the items of the object at an address, read through every reference
  (\<^verbatim>\<open>None\<close> when they have none).
\<close>

definition json_of :: "world \<Rightarrow> addr \<Rightarrow> fields option" where
  "json_of w a = dump_items (next_addr w) (heap w) (items_of w a)"



text \<open>
  The content of a document as a caller submits it: a \<^verbatim>\<open>dict\<close> (distinct keys) of fields
  of its own, none of them the store-managed \<^verbatim>\<open>_id\<close> or \<^verbatim>\<open>_rev\<close>, with JSON values other
  than \<^verbatim>\<open>None\<close>.
\<close>

definition user_fields :: "fields \<Rightarrow> bool" where
  "user_fields kvs =
     (distinct (map fst kvs) \<and>
      list_all (\<lambda>kv. fst kv \<noteq> ''_id'' \<and> fst kv \<noteq> ''_rev'' \<and> snd kv \<noteq> PNone \<and> literal (snd kv)) kvs)"

text \<open>
  A concrete world for the examples: a server that accepts one account and holds a
  database \<^verbatim>\<open>db\<close> with the documents \<^verbatim>\<open>doc1\<close> and \<^verbatim>\<open>doc2\<close> (the second with a list
  inside); client object 0 has been installed and is disconnected, as after \<^verbatim>\<open>init_app\<close>,
  and \<open>example_app\<close> is the instance that \<^verbatim>\<open>init_app\<close> bound to the database.
\<close>

definition example_world :: world where
  "example_world =
     \<lparr>clients = [0 \<mapsto> CouchDB (Some ''admin'') (Some ''secret'') (Some ''http://localhost:5984'')],
      CLIENT = Some 0,
      next_client = 1,
      connects = 0, disconnects = 0,
      transport = (\<lambda>u p l. if u = Some ''admin'' \<and> p = Some ''secret'' then Granted else Refused 401),
      databases = [''db'' \<mapsto>
         [''doc1'' \<mapsto> [(''_id'', PStr ''doc1''), (''_rev'', PStr ''1-a''), (''name'', PStr ''a'')],
          ''doc2'' \<mapsto> [(''_id'', PStr ''doc2''), (''_rev'', PStr ''1-b''), (''tags'', PList [PStr ''x''])]]],
      serial = 0,
      new_id = (\<lambda>n. replicate (Suc n) CHR ''u''),
      new_rev = (\<lambda>n. replicate (Suc n) CHR ''r''),
      heap = Map.empty,
      next_addr = 0\<rparr>"

definition example_db :: database where
  "example_db = \<lparr>db_client = 0, db_name = ''db''\<rparr>"

definition example_app :: flask_cloudant where
  "example_app = \<lparr>db = Some example_db\<rparr>"


definition example_handle :: flask_cloudant_document where
  "example_handle = \<lparr>document = \<lparr>doc_database = example_db, doc_addr = 0\<rparr>\<rparr>"

text \<open>A configuration with every key, for the account the example server accepts.\<close>

definition example_config :: config where
  "example_config =
     [''COUCH_USER'' \<mapsto> ''admin'', ''COUCH_PWD'' \<mapsto> ''secret'',
      ''COUCH_DB'' \<mapsto> ''db'', ''COUCH_URL'' \<mapsto> ''http://localhost:5984'']"

section \<open>The statement combinators\<close>

lemma andthen_Inr: "m w = (Inr x, w') \<Longrightarrow> andthen m f w = f x w'"
  by (simp add: andthen_def)

lemma andthen_InrD:
  "andthen m f w = (Inr y, w'') \<Longrightarrow> \<exists>x w'. m w = (Inr x, w') \<and> f x w' = (Inr y, w'')"
  by (auto simp: andthen_def split: prod.splits sum.splits)

lemma switch_eq:
  "CLIENT w = Some a \<Longrightarrow> clients w a = Some c \<Longrightarrow> (clients w)(a \<mapsto> c\<lparr>connected := b\<rparr>) = switch b w"
  by (auto simp: switch_def fun_eq_iff)

lemma connect_accepted: "accepted w \<Longrightarrow> connect w = (Inr (), opened w)"
  by (auto simp: accepted_def connect_def client_connect_def opened_def switch_eq split: option.splits)

lemma connect_InrD: "connect w = (Inr x, w') \<Longrightarrow> accepted w"
  by (auto simp: accepted_def connect_def client_connect_def split: option.splits login.splits)

lemma accepted_CLIENT: "accepted w \<Longrightarrow> \<exists>a c. CLIENT w = Some a \<and> clients w a = Some c"
  by (auto simp: accepted_def split: option.splits)

lemma disconnect_accepted: "accepted w \<Longrightarrow> disconnect w = (Inr (), closed w)"
  by (auto simp: accepted_def disconnect_def client_disconnect_def closed_def switch_eq split: option.splits)

lemma accepted_opened [simp]: "accepted (opened w) = accepted w"
  by (auto simp: accepted_def opened_def switch_def split: option.splits)

lemma accepted_closed [simp]: "accepted (closed w) = accepted w"
  by (auto simp: accepted_def closed_def switch_def split: option.splits)

lemma accepted_conn: "conn w' = conn w \<Longrightarrow> accepted w' = accepted w"
  by (auto simp: conn_def accepted_def split: option.splits)

lemma drift_conn: "conn w' = conn w \<Longrightarrow> drift w w' = 0"
  by (simp add: conn_def drift_def)

lemma drift_trans: "drift w w' + drift w' w'' = drift w w''"
  by (simp add: drift_def)

lemma drift_opened [simp]: "drift w (opened w) = 1"
  by (simp add: drift_def opened_def)

lemma drift_closed [simp]: "drift w (closed w) = - 1"
  by (simp add: drift_def closed_def)

lemma disconnected_closed: "accepted w \<Longrightarrow> disconnected (closed w)"
  by (auto simp: accepted_def disconnected_def closed_def session_def switch_def split: option.splits)

lemma keeps_conn_lib:
  "keeps_conn (alloc x)" "keeps_conn (Document d i)" "keeps_conn (getitem doc k)"
  "keeps_conn (lib_exists doc)" "keeps_conn (lib_fetch doc)" "keeps_conn (lib_delete doc)"
  "keeps_conn (lib_create doc)" "keeps_conn (field_set doc k v)" "keeps_conn (dict_copy doc)"
  "keeps_conn (attr_db self)" "keeps_conn (return y)" "keeps_conn (raise e)" "keeps_conn (assert_dict c)"
  by (auto simp: keeps_conn_def conn_def alloc_def Document_def andthen_def return_def raise_def
      getitem_def lib_exists_def lib_fetch_def lib_delete_def lib_create_def field_set_def
      dict_copy_def attr_db_def assert_dict_def Let_def
      split: option.splits if_splits prod.splits pyval.splits obj.splits)

lemma keeps_conn_andthen:
  "keeps_conn m \<Longrightarrow> (\<And>x. keeps_conn (f x)) \<Longrightarrow> keeps_conn (andthen m f)"
  unfolding keeps_conn_def andthen_def
  apply (intro allI)
  subgoal for w
    apply (cases "m w")
    subgoal for r w'
      by (cases r) (auto dest: spec[of _ w] simp: split_beta)
    done
  done

lemma keeps_conn_set_fields: "keeps_conn (set_fields doc kvs)"
  by (induction kvs) (auto intro!: keeps_conn_andthen keeps_conn_lib)

lemma keeps_conn_FlaskCloudantDocument: "keeps_conn (FlaskCloudantDocument cdoc b)"
  unfolding FlaskCloudantDocument_def
  by (auto intro!: keeps_conn_andthen keeps_conn_lib)

lemma keeps_conn_save: "keeps_conn (save doc)"
  by (simp add: save_def keeps_conn_lib)

lemma keeps_conn_document_delete: "keeps_conn (document_delete doc)"
  by (simp add: document_delete_def keeps_conn_lib)

lemma behaves_keeps: "keeps_conn m \<Longrightarrow> behaves m 0 0"
  unfolding behaves_def keeps_conn_def
proof (intro allI impI)
  fix w assume k: "\<forall>w. conn (snd (m w)) = conn w" and acc: "accepted w"
  from k have c: "conn (snd (m w)) = conn w" by blast
  from accepted_conn[OF c] acc have a: "accepted (snd (m w))" by simp
  from drift_conn[OF c] have d: "drift w (snd (m w)) = 0" .
  show "accepted (snd (m w)) \<and>
        (case fst (m w) of Inl _ \<Rightarrow> 0 \<le> drift w (snd (m w)) | Inr _ \<Rightarrow> drift w (snd (m w)) = 0)"
    using a d by (simp split: sum.splits)
qed

lemma behaves_connect: "behaves connect 1 f"
  by (simp add: behaves_def connect_accepted)

lemma behaves_disconnect: "behaves disconnect (- 1) f"
  by (simp add: behaves_def disconnect_accepted)

lemma behaves_andthen:
  assumes m: "behaves m sa fa" and g: "\<And>x. behaves (g x) sb fb"
    and s: "s = sa + sb" and f1: "f \<le> fa" and f2: "f \<le> sa + fb"
  shows "behaves (andthen m g) s f"
  unfolding behaves_def
proof (intro allI impI)
  fix w assume acc: "accepted w"
  obtain r w' where mw: "m w = (r, w')" by (cases "m w")
  from m acc have "accepted (snd (m w)) \<and>
      (case fst (m w) of Inr _ \<Rightarrow> drift w (snd (m w)) = sa | Inl _ \<Rightarrow> fa \<le> drift w (snd (m w)))"
    by (simp add: behaves_def)
  then have acc': "accepted w'"
    and dr: "case r of Inr _ \<Rightarrow> drift w w' = sa | Inl _ \<Rightarrow> fa \<le> drift w w'"
    by (simp_all add: mw split: sum.splits)
  show "accepted (snd (andthen m g w)) \<and>
        (case fst (andthen m g w) of Inr _ \<Rightarrow> drift w (snd (andthen m g w)) = s
         | Inl _ \<Rightarrow> f \<le> drift w (snd (andthen m g w)))"
  proof (cases r)
    case (Inl e)
    with mw acc' dr f1 show ?thesis by (simp add: andthen_def)
  next
    case (Inr x)
    obtain r2 w2 where gw: "g x w' = (r2, w2)" by (cases "g x w'")
    from g[of x] acc' have "accepted (snd (g x w')) \<and>
        (case fst (g x w') of Inr _ \<Rightarrow> drift w' (snd (g x w')) = sb
         | Inl _ \<Rightarrow> fb \<le> drift w' (snd (g x w')))"
      by (simp add: behaves_def)
    then have acc2: "accepted w2"
      and dr2: "case r2 of Inr _ \<Rightarrow> drift w' w2 = sb | Inl _ \<Rightarrow> fb \<le> drift w' w2"
      by (simp_all add: gw split: sum.splits)
    from Inr dr have d1: "drift w w' = sa" by simp
    have tr: "drift w w2 = drift w w' + drift w' w2" by (simp add: drift_trans)
    from Inr mw gw have eq: "andthen m g w = (r2, w2)" by (simp add: andthen_def)
    show ?thesis
      using acc2 dr2 d1 tr s f2 by (cases r2) (simp_all add: eq)
  qed
qed

lemma behaves_catch:
  assumes m: "behaves m s f" and h: "\<And>e w. \<exists>e'. h e w = (Inl e', w)"
  shows "behaves (catch m h) s f"
  unfolding behaves_def
proof (intro allI impI)
  fix w assume acc: "accepted w"
  obtain r w' where mw: "m w = (r, w')" by (cases "m w")
  from m acc have "accepted (snd (m w)) \<and>
      (case fst (m w) of Inr _ \<Rightarrow> drift w (snd (m w)) = s | Inl _ \<Rightarrow> f \<le> drift w (snd (m w)))"
    by (simp add: behaves_def)
  then have acc': "accepted w'"
    and dr: "case r of Inr _ \<Rightarrow> drift w w' = s | Inl _ \<Rightarrow> f \<le> drift w w'"
    by (simp_all add: mw split: sum.splits)
  show "accepted (snd (catch m h w)) \<and>
        (case fst (catch m h w) of Inr _ \<Rightarrow> drift w (snd (catch m h w)) = s
         | Inl _ \<Rightarrow> f \<le> drift w (snd (catch m h w)))"
  proof (cases r)
    case (Inr x)
    with mw acc' dr show ?thesis by (simp add: catch_def)
  next
    case (Inl e)
    from h[of e w'] obtain e' where "h e w' = (Inl e', w')" by blast
    with Inl mw have "catch m h w = (Inl e', w')" by (simp add: catch_def)
    with Inl acc' dr show ?thesis by simp
  qed
qed

lemma behaves_return: "behaves (return x) 0 f"
  by (simp add: behaves_def return_def drift_def)

lemma behaves_keeps_andthen:
  "keeps_conn m \<Longrightarrow> (\<And>x. behaves (g x) s f) \<Longrightarrow> f \<le> 0 \<Longrightarrow> behaves (andthen m g) s f"
  by (rule behaves_andthen[where sa=0 and fa=0 and sb=s and fb=f]) (simp_all add: behaves_keeps)

lemma behaves_closing: "behaves (andthen disconnect (\<lambda>_. return x)) (- 1) f"
  by (rule behaves_andthen[where sa="- 1" and fa=f and sb=0 and fb="f + 1"])
     (simp_all add: behaves_disconnect behaves_return)

lemma behaves_refresh: "behaves (refresh doc) 0 1"
  unfolding refresh_def
  apply (rule behaves_andthen[where sa=1 and fa=1 and sb="- 1" and fb=0])
      apply (rule behaves_connect)
     apply (rule behaves_keeps_andthen)
       apply (rule keeps_conn_lib)
      apply (rule behaves_disconnect)
     apply simp_all
  done

lemma behaves_content: "behaves (content doc c) 0 0"
proof (cases "c = PNone")
  case True
  have "behaves (andthen (refresh doc) (\<lambda>_. andthen (dict_copy (document doc)) (\<lambda>r. return (Some r)))) 0 0"
    apply (rule behaves_andthen[where sa=0 and fa=1 and sb=0 and fb=0])
        apply (rule behaves_refresh)
       apply (rule behaves_keeps_andthen)
         apply (rule keeps_conn_lib)
        apply (rule behaves_return)
       apply simp_all
    done
  with True show ?thesis by (simp add: content_def)
next
  case False
  have "keeps_conn (content doc c)"
    using False unfolding content_def
    by (cases c) (auto intro!: keeps_conn_andthen keeps_conn_lib keeps_conn_set_fields)
  then show ?thesis by (rule behaves_keeps)
qed

lemma behaves_get: "behaves (get self i) 0 1"
  unfolding get_def
  apply (rule behaves_andthen[where sa=1 and fa=1 and sb="- 1" and fb=0])
      apply (rule behaves_connect)
     apply (rule behaves_keeps_andthen, rule keeps_conn_lib)
      apply (rule behaves_keeps_andthen, rule keeps_conn_lib)
       apply (rule behaves_keeps_andthen, rule keeps_conn_FlaskCloudantDocument)
        apply (rule behaves_closing)
       apply simp_all
  done

lemma behaves_exists: "behaves (exists doc) 0 1"
  unfolding exists_def
  apply (rule behaves_andthen[where sa=1 and fa=1 and sb="- 1" and fb=0])
      apply (rule behaves_connect)
     apply (rule behaves_keeps_andthen, rule keeps_conn_lib)
      apply (rule behaves_closing)
     apply simp_all
  done

lemma behaves_delete: "behaves (delete self i) 0 1"
  unfolding delete_def
  apply (rule behaves_andthen[where sa=0 and fa=1 and sb=0 and fb=1])
      apply (rule behaves_get)
     apply (rule behaves_andthen[where sa=1 and fa=1 and sb="- 1" and fb=0])
         apply (rule behaves_connect)
        apply (rule behaves_keeps_andthen, rule keeps_conn_document_delete)
         apply (rule behaves_disconnect)
        apply simp_all
  done

lemma keeps_conn_put_guard:
  "keeps_conn (if e1 \<and> \<not> override then
          andthen (getitem cdoc ''_id'') (\<lambda>i. raise (FlaskCloudantException 405 [i]))
        else
          andthen (lib_exists cdoc) (\<lambda>e2.
            if e2 \<and> override then andthen (lib_fetch cdoc) (\<lambda>_. lib_delete cdoc)
            else return ()))"
  by (auto intro!: keeps_conn_andthen keeps_conn_lib)

lemma behaves_put: "behaves (put self c i ov) 0 1"
  unfolding put_def
  apply (rule behaves_andthen[where sa=1 and fa=1 and sb="- 1" and fb=0])
      apply (rule behaves_connect)
     apply (rule behaves_keeps_andthen, rule keeps_conn_lib)
      apply (rule behaves_keeps_andthen, rule keeps_conn_lib)
       apply (rule behaves_keeps_andthen, rule keeps_conn_lib)
        apply (rule behaves_keeps_andthen, rule keeps_conn_put_guard)
         apply (rule behaves_keeps_andthen, rule keeps_conn_FlaskCloudantDocument)
          apply (rule behaves_andthen[where sa=0 and fa=0 and sb="- 1" and fb=0])
              apply (rule behaves_catch)
               apply (rule behaves_content)
              apply (simp add: raise_def split: exn.splits)
             apply (rule behaves_keeps_andthen, rule keeps_conn_save)
              apply (rule behaves_closing)
             apply simp_all
  done

lemma ends_closed_disconnect: "ends_closed disconnect"
  by (simp add: ends_closed_def disconnect_accepted disconnected_closed)

lemma ends_closed_closing: "ends_closed (andthen disconnect (\<lambda>_. return x))"
  by (simp add: ends_closed_def disconnect_accepted andthen_def return_def disconnected_closed)

lemma ends_closed_andthen:
  assumes m: "behaves m s f" and g: "\<And>x. ends_closed (g x)"
  shows "ends_closed (andthen m g)"
  unfolding ends_closed_def
proof (intro allI impI)
  fix w assume acc: "accepted w"
  obtain r w' where mw: "m w = (r, w')" by (cases "m w")
  from m acc have "accepted (snd (m w))" by (simp add: behaves_def)
  then have acc': "accepted w'" by (simp add: mw)
  show "case fst (andthen m g w) of Inl _ \<Rightarrow> True | Inr _ \<Rightarrow> disconnected (snd (andthen m g w))"
  proof (cases r)
    case (Inl e)
    with mw show ?thesis by (simp add: andthen_def)
  next
    case (Inr x)
    from g[of x] acc' have "case fst (g x w') of Inl _ \<Rightarrow> True | Inr _ \<Rightarrow> disconnected (snd (g x w'))"
      by (simp add: ends_closed_def)
    moreover from Inr mw have "andthen m g w = g x w'" by (simp add: andthen_def)
    ultimately show ?thesis by (simp split: sum.splits)
  qed
qed

lemma ends_closed_keeps_andthen:
  "keeps_conn m \<Longrightarrow> (\<And>x. ends_closed (g x)) \<Longrightarrow> ends_closed (andthen m g)"
  by (rule ends_closed_andthen[OF behaves_keeps])

lemma ends_closed_get: "ends_closed (get self i)"
  unfolding get_def
  apply (rule ends_closed_andthen[OF behaves_connect[where f=1]])
  apply (rule ends_closed_keeps_andthen, rule keeps_conn_lib)
  apply (rule ends_closed_keeps_andthen, rule keeps_conn_lib)
  apply (rule ends_closed_keeps_andthen, rule keeps_conn_FlaskCloudantDocument)
  apply (rule ends_closed_closing)
  done

lemma ends_closed_exists: "ends_closed (exists doc)"
  unfolding exists_def
  apply (rule ends_closed_andthen[OF behaves_connect[where f=1]])
  apply (rule ends_closed_keeps_andthen, rule keeps_conn_lib)
  apply (rule ends_closed_closing)
  done

lemma ends_closed_refresh: "ends_closed (refresh doc)"
  unfolding refresh_def
  apply (rule ends_closed_andthen[OF behaves_connect[where f=1]])
  apply (rule ends_closed_keeps_andthen, rule keeps_conn_lib)
  apply (rule ends_closed_disconnect)
  done

lemma ends_closed_delete: "ends_closed (delete self i)"
  unfolding delete_def
  apply (rule ends_closed_andthen[OF behaves_get])
  apply (rule ends_closed_andthen[OF behaves_connect[where f=1]])
  apply (rule ends_closed_keeps_andthen, rule keeps_conn_document_delete)
  apply (rule ends_closed_disconnect)
  done

lemma ends_closed_put: "ends_closed (put self c i ov)"
  unfolding put_def
  apply (rule ends_closed_andthen[OF behaves_connect[where f=1]])
  apply (rule ends_closed_keeps_andthen, rule keeps_conn_lib)
  apply (rule ends_closed_keeps_andthen, rule keeps_conn_lib)
  apply (rule ends_closed_keeps_andthen, rule keeps_conn_lib)
  apply (rule ends_closed_keeps_andthen, rule keeps_conn_put_guard)
  apply (rule ends_closed_keeps_andthen, rule keeps_conn_FlaskCloudantDocument)
  apply (rule ends_closed_andthen[where s=0 and f=0])
   apply (rule behaves_catch)
    apply (rule behaves_content)
   apply (simp add: raise_def split: exn.splits)
  apply (rule ends_closed_keeps_andthen, rule keeps_conn_save)
  apply (rule ends_closed_closing)
  done

lemma behaves_forget: "behaves m 0 1 \<Longrightarrow> behaves (forget m) 0 1"
  unfolding forget_def
  by (rule behaves_andthen[where sa=0 and fa=1 and sb=0 and fb=1]) (simp_all add: behaves_return)

lemma ends_closed_forget: "behaves m s f \<Longrightarrow> ends_closed m \<Longrightarrow> ends_closed (forget m)"
  by (auto simp: ends_closed_def forget_def andthen_def return_def split: prod.splits sum.splits)

lemma behaves_run: "behaves (run op) 0 1"
  by (cases op) (simp_all add: behaves_forget behaves_get behaves_put behaves_delete behaves_exists behaves_refresh)

lemma ends_closed_run: "ends_closed (run op)"
  by (cases op) (simp_all add: ends_closed_forget[OF behaves_get] ends_closed_forget[OF behaves_put]
      ends_closed_forget[OF behaves_exists] ends_closed_get ends_closed_put ends_closed_delete
      ends_closed_exists ends_closed_refresh)

lemma run_InrD: "run op w = (Inr x, w') \<Longrightarrow> accepted w"
  by (cases op)
     (auto simp: forget_def get_def put_def delete_def exists_def refresh_def
           dest!: andthen_InrD dest: connect_InrD)

lemma drift_balanced: "calls_balanced w w' = (drift w w' = 0)"
  by (auto simp: calls_balanced_def drift_def)

section \<open>The operations on an accepted client\<close>

lemma opened_sel [simp]:
  "heap (opened w) = heap w" "next_addr (opened w) = next_addr w" "databases (opened w) = databases w"
  "serial (opened w) = serial w" "new_id (opened w) = new_id w" "new_rev (opened w) = new_rev w"
  "transport (opened w) = transport w" "connects (opened w) = connects w + 1"
  "disconnects (opened w) = disconnects w" "CLIENT (opened w) = CLIENT w"
  "next_client (opened w) = next_client w"
  by (simp_all add: opened_def)

lemma closed_sel [simp]:
  "heap (closed w) = heap w" "next_addr (closed w) = next_addr w" "databases (closed w) = databases w"
  "serial (closed w) = serial w" "new_id (closed w) = new_id w" "new_rev (closed w) = new_rev w"
  "transport (closed w) = transport w" "connects (closed w) = connects w"
  "disconnects (closed w) = disconnects w + 1" "CLIENT (closed w) = CLIENT w"
  "next_client (closed w) = next_client w"
  by (simp_all add: closed_def)

lemma accepted_upd [simp]:
  "accepted (w\<lparr>heap := h\<rparr>) = accepted w" "accepted (w\<lparr>next_addr := n\<rparr>) = accepted w"
  "accepted (w\<lparr>databases := ds\<rparr>) = accepted w" "accepted (w\<lparr>serial := k\<rparr>) = accepted w"
  by (simp_all add: accepted_def split: option.splits)

lemma serves_upd [simp]:
  "serves (w\<lparr>heap := h\<rparr>) d = serves w d" "serves (w\<lparr>next_addr := n\<rparr>) d = serves w d"
  "serves (w\<lparr>databases := ds\<rparr>) d = serves w d" "serves (w\<lparr>serial := k\<rparr>) d = serves w d"
  "serves (opened w) d = serves w d" "serves (closed w) d = serves w d"
  by (simp_all add: serves_def)

lemma session_upd [simp]:
  "session (w\<lparr>heap := h\<rparr>) a = session w a" "session (w\<lparr>next_addr := n\<rparr>) a = session w a"
  "session (w\<lparr>databases := ds\<rparr>) a = session w a" "session (w\<lparr>serial := k\<rparr>) a = session w a"
  by (simp_all add: session_def)


lemma session_closed: "serves w d \<Longrightarrow> \<not> session (closed w) (db_client d)"
  by (auto simp: serves_def accepted_def session_def closed_def switch_def split: option.splits)


lemma stored_upd [simp]:
  "stored (w\<lparr>heap := h\<rparr>) = stored w" "stored (w\<lparr>next_addr := n\<rparr>) = stored w"
  "stored (w\<lparr>serial := k\<rparr>) = stored w"
  "stored (opened w) = stored w" "stored (closed w) = stored w"
  by (simp_all add: stored_def fun_eq_iff)

lemma items_of_upd [simp]:
  "items_of (w\<lparr>next_addr := n\<rparr>) a = items_of w a"
  "items_of (w\<lparr>databases := ds\<rparr>) a = items_of w a"
  "items_of (w\<lparr>serial := k\<rparr>) a = items_of w a"
  "items_of (opened w) a = items_of w a" "items_of (closed w) a = items_of w a"
  by (simp_all add: items_of_def)

lemma items_of_heap [simp]:
  "items_of (w\<lparr>heap := h(a \<mapsto> ODoc fs)\<rparr>) a = fs"
  "items_of (w\<lparr>heap := h(a \<mapsto> ODict fs)\<rparr>) a = fs"
  "b \<noteq> a \<Longrightarrow> items_of (w\<lparr>heap := h(b \<mapsto> x)\<rparr>) a = items_of (w\<lparr>heap := h\<rparr>) a"
  by (simp_all add: items_of_def)

lemma items_of_heap_same [simp]: "items_of (w\<lparr>heap := heap w\<rparr>) a = items_of w a"
  by (simp add: items_of_def)

lemma doc_id_single [simp]: "doc_id [(''_id'', PStr i)] = Some i"
  by (simp add: doc_id_def)

lemma doc_id_Nil [simp]: "doc_id [] = None"
  by (simp add: doc_id_def)


lemma fresh_doc_sel [simp]:
  "items_of (fresh_doc (Some i) w) (next_addr w) = (if i = [] then [] else [(''_id'', PStr i)])"
  "stored (fresh_doc j w) = stored w" "accepted (fresh_doc j w) = accepted w"
  "serves (fresh_doc j w) d = serves w d" "session (fresh_doc j w) a = session w a"
  "next_addr (fresh_doc j w) = Suc (next_addr w)"
  by (simp_all add: fresh_doc_def)










lemma dump_literal:
  "literal v \<Longrightarrow> dump n h v = Some v"
  "list_all literal xs \<Longrightarrow> dump_list n h xs = Some xs"
  "list_all (\<lambda>kv. literal (snd kv)) kvs \<Longrightarrow> dump_items n h kvs = Some kvs"
  by (induction n h v and n h xs and n h kvs rule: dump_dump_list_dump_items.induct) simp_all






lemma fresh_items [simp]:
  "items_of (fresh_doc j (opened w)) (next_addr w)
     = (case j of None \<Rightarrow> [] | Some i \<Rightarrow> if i = [] then [] else [(''_id'', PStr i)])"
  by (simp add: fresh_doc_def)




lemma map_of_rev_distinct: "distinct (map fst kvs) \<Longrightarrow> map_of (rev kvs) = map_of kvs"
proof (induction kvs)
  case Nil
  show ?case by simp
next
  case (Cons kv kvs)
  obtain k v where kv: "kv = (k, v)" by (cases kv)
  from Cons.prems kv have nk: "k \<notin> fst ` set kvs" and d: "distinct (map fst kvs)" by simp_all
  have "dom (map_of kvs) \<inter> dom [k \<mapsto> v] = {}"
    using nk by (simp add: dom_map_of_conv_image_fst)
  then have "map_of kvs ++ [k \<mapsto> v] = [k \<mapsto> v] ++ map_of kvs"
    by (rule map_add_comm)
  moreover have "map_of (rev (kv # kvs)) = [k \<mapsto> v] ++ map_of kvs"
    using Cons.IH[OF d] by (simp add: kv)
  moreover have "map_of (kv # kvs) = map_of kvs ++ [k \<mapsto> v]"
    by (simp add: kv)
  ultimately show ?case by simp
qed

lemma json_of_upd [simp]:
  "json_of (opened w) a = json_of w a" "json_of (closed w) a = json_of w a"
  "json_of (w\<lparr>databases := ds\<rparr>) a = json_of w a" "json_of (w\<lparr>serial := k\<rparr>) a = json_of w a"
  by (simp_all add: json_of_def)


text \<open>The definitions that evaluate an operation on a concrete world.\<close>

lemmas eval_defs =
  return_def raise_def andthen_def catch_def forget_def
  CouchDB_def client_connect_def client_disconnect_def client_getitem_def session_def items_of_def
  doc_id_def reserved_def stored_def alloc_def Document_def getitem_def lib_exists_def lib_fetch_def
  lib_delete_def lib_create_def field_set_def dict_copy_def assert_dict_def
  connect_def disconnect_def set_CLIENT_def CLIENT_getitem_def attr_db_def init_app_def
  FlaskCloudantDocument_def refresh_def content_def exists_def save_def document_delete_def
  get_def put_def delete_def
  accepted_def serves_def disconnected_def calls_balanced_def
  example_db_def example_app_def example_handle_def example_config_def

section \<open>C1: connect and disconnect around the operations\<close>

text \<open>
  Claim C1, as amended. Every public operation (\<^verbatim>\<open>get\<close>, \<^verbatim>\<open>put\<close>, \<^verbatim>\<open>delete\<close> of
  \<^verbatim>\<open>FlaskCloudant\<close>, \<^verbatim>\<open>exists\<close> and \<^verbatim>\<open>refresh\<close> of \<^verbatim>\<open>FlaskCloudantDocument\<close>) that returns
  normally leaves the connection Disconnected, with its \<^verbatim>\<open>connect\<close> and \<^verbatim>\<open>disconnect\<close>
  calls balanced. No operation releases the connection on an error path: when the shared
  client is accepted by the transport and the operation raises, at least one
  \<^verbatim>\<open>connect\<close> call is left without its \<^verbatim>\<open>disconnect\<close>.
\<close>

theorem C1_connect_balance:
  "(run op w = (Inr x, w') \<longrightarrow> calls_balanced w w' \<and> disconnected w') \<and>
   (accepted w \<and> run op w = (Inl e, w') \<longrightarrow> \<not> calls_balanced w w')"
proof (intro conjI impI)
  assume r: "run op w = (Inr x, w')"
  then have acc: "accepted w" by (rule run_InrD)
  from behaves_run[of op] acc r show "calls_balanced w w'"
    by (auto simp: behaves_def drift_balanced dest!: spec[of _ w])
  from ends_closed_run[of op] acc r show "disconnected w'"
    by (auto simp: ends_closed_def dest!: spec[of _ w])
next
  assume "accepted w \<and> run op w = (Inl e, w')"
  with behaves_run[of op] show "\<not> calls_balanced w w'"
    by (auto simp: behaves_def drift_balanced dest!: spec[of _ w])
qed

text \<open>
  The theorem at work: fetching the stored document \<^verbatim>\<open>doc1\<close> returns and is balanced;
  fetching the absent \<^verbatim>\<open>nope\<close> raises and is not.
\<close>

theorem C1_connect_balance_witness:
  "fst (run (Get example_app (Some ''doc1'')) example_world) = Inr () \<and>
   calls_balanced example_world (snd (run (Get example_app (Some ''doc1'')) example_world)) \<and>
   disconnected (snd (run (Get example_app (Some ''doc1'')) example_world)) \<and>
   accepted example_world \<and>
   fst (run (Get example_app (Some ''nope'')) example_world)
     = Inl (FlaskCloudantException 404 [PStr ''nope'']) \<and>
   \<not> calls_balanced example_world (snd (run (Get example_app (Some ''nope'')) example_world))"
proof -
  let ?ok = "run (Get example_app (Some ''doc1'')) example_world"
  let ?ko = "run (Get example_app (Some ''nope'')) example_world"
  have a: "accepted example_world"
    by (simp add: example_world_def eval_defs)
  have f1: "fst ?ok = Inr ()"
    by (simp add: example_world_def eval_defs)
  have f2: "fst ?ko = Inl (FlaskCloudantException 404 [PStr ''nope''])"
    by (simp add: example_world_def eval_defs)
  from f1 have r1: "?ok = (Inr (), snd ?ok)" by (simp add: prod_eq_iff)
  from f2 have r2: "?ko = (Inl (FlaskCloudantException 404 [PStr ''nope'']), snd ?ko)"
    by (simp add: prod_eq_iff)
  from C1_connect_balance[of "Get example_app (Some ''doc1'')" example_world "()" "snd ?ok"] r1
  have g1: "calls_balanced example_world (snd ?ok) \<and> disconnected (snd ?ok)" by blast
  from C1_connect_balance[of "Get example_app (Some ''nope'')" example_world _ "snd ?ko"
      "FlaskCloudantException 404 [PStr ''nope'']"] a r2
  have g2: "\<not> calls_balanced example_world (snd ?ko)" by blast
  from a f1 f2 g1 g2 show ?thesis by blast
qed

text \<open>
  The claim as it was stated fails: \<^verbatim>\<open>get\<close> of an absent document raises status 404
  after one \<^verbatim>\<open>connect\<close> and no \<^verbatim>\<open>disconnect\<close>, and the client stays Connected.
\<close>

theorem C1_counterexample:
  "fst (get example_app (Some ''nope'') example_world)
     = Inl (FlaskCloudantException 404 [PStr ''nope'']) \<and>
   connects (snd (get example_app (Some ''nope'') example_world)) = 1 \<and>
   disconnects (snd (get example_app (Some ''nope'') example_world)) = 0 \<and>
   \<not> disconnected (snd (get example_app (Some ''nope'') example_world))"
  by (simp add: example_world_def eval_defs)

section \<open>C4: content in set mode\<close>




section \<open>C5: get\<close>




section \<open>C9: exists\<close>




end
